theory Spec2Isabelle
  imports Main "HOL-Library.Word"
begin

section \<open>asyncOperations.js: three styles of asynchronous file reading\<close>

text \<open>
  The script reads text files through Node's \<^verbatim>\<open>fs\<close> module in callback style, in
  promise style and in async/await style, and reads a list of files one after the other.
  The embedding below follows \<^verbatim>\<open>src/asyncOperations.js\<close> function by function. The
  driver \<^verbatim>\<open>main\<close>, which only staggers the demonstrations with timers and prints the
  summary, is not embedded.
\<close>

subsection \<open>Strings\<close>

text \<open>
  A JavaScript string is a sequence of UTF-16 code units: \<^verbatim>\<open>s.length\<close> counts code
  units and \<^verbatim>\<open>s.substring\<close> cuts between them. \<open>str\<close> embeds an ASCII literal
  of the source.
\<close>

type_synonym code_unit = "16 word"
type_synonym js_string = "code_unit list"

definition str :: "string \<Rightarrow> js_string" where
  "str s = map of_char s"

text \<open>\<^verbatim>\<open>s.substring(start, end)\<close> for non-negative integer arguments: both indices are
  clamped to the length of the string and swapped when the first is the larger.\<close>

definition substring :: "js_string \<Rightarrow> nat \<Rightarrow> nat \<Rightarrow> js_string" where
  "substring s start end' =
     (let a = min start (length s); b = min end' (length s)
      in take (max a b - min a b) (drop (min a b) s))"

text \<open>\<^verbatim>\<open>s.repeat(count)\<close>.\<close>

definition repeat :: "js_string \<Rightarrow> nat \<Rightarrow> js_string" where
  "repeat s count = concat (replicate count s)"

text \<open>The decimal digits of a non-negative integer, as a template literal prints a
  number such as an index or a length.\<close>

definition digit :: "nat \<Rightarrow> code_unit" where
  "digit d = of_nat (48 + d)"

function number_toString :: "nat \<Rightarrow> js_string" where
  "number_toString n =
     (if n < 10 then [digit n] else number_toString (n div 10) @ [digit (n mod 10)])"
  by pat_completeness auto
termination
  by (relation "measure id") auto

declare number_toString.simps [simp del]

text \<open>The line feed of \<^verbatim>\<open>'\n'\<close>.\<close>

definition LF :: code_unit where
  "LF = 10"

subsection \<open>Values, errors and the world\<close>

text \<open>
  An error object carries its \<^verbatim>\<open>message\<close>. \<open>SystemError\<close> is what a failed file
  operation produces, \<open>TypeError\<close> what a method call on \<^verbatim>\<open>null\<close> throws.
\<close>

datatype js_error = SystemError (message: js_string) | TypeError (message: js_string)

text \<open>The values stored in the fields of a result record, and an object as a finite
  map from property names to values.\<close>

datatype js_value = JsString js_string | JsNumber nat

type_synonym js_object = "string \<rightharpoonup> js_value"

text \<open>
  Everything the script does to its environment is one of three events: a call of
  \<^verbatim>\<open>console.log\<close>, a call of \<^verbatim>\<open>console.error\<close>, or an attempt to read a file. The
  world is the file system and the events so far, oldest first. For every name the file
  system gives the outcome of reading it as the promise interface settles it: the decoded
  UTF-8 text of the file, or the error the promise rejects with. The script never writes a
  file, so the file system is the same at every step of a run.

  The runtime accepts a string as a path when it holds no NUL code unit. For a string it
  refuses, the promise interface still answers through its promise, with a rejection, but
  the callback interface throws at once, before it reads anything or registers the
  callback. The error of that refusal is the runtime's and is a parameter of the world.
\<close>

definition valid_path :: "js_string \<Rightarrow> bool" where
  "valid_path name = (0 \<notin> set name)"

datatype event =
  ConsoleLog "js_string list" | ConsoleError "js_string list" | ReadFile js_string

record world =
  disk :: "js_string \<Rightarrow> js_error + js_string"
  refusal :: "js_string \<Rightarrow> js_error"
  trace :: "event list"

definition emit :: "event \<Rightarrow> world \<Rightarrow> world" where
  "emit ev w = w\<lparr>trace := trace w @ [ev]\<rparr>"

fun reads_of :: "event list \<Rightarrow> js_string list" where
  "reads_of [] = []"
| "reads_of (ReadFile f # evs) = f # reads_of evs"
| "reads_of (ev # evs) = reads_of evs"

subsection \<open>Completions, promises and callbacks\<close>

text \<open>
  A piece of JavaScript either completes normally with a value (\<open>Inr\<close>) or throws
  (\<open>Inl\<close>); for a promise these are fulfilment and rejection. The program is
  single-threaded and every asynchronous step is awaited or chained by its caller before
  that caller's next step, so a promise-returning function is embedded as the function
  from the world before the call to the settled outcome and the world after it. A function
  that hands its result to a callback is embedded in continuation style: its value is the
  completion of the work it starts, the call of the callback included.
\<close>

type_synonym 'a js = "world \<Rightarrow> (js_error + 'a) \<times> world"

definition js_return :: "'a \<Rightarrow> 'a js" where
  "js_return v w = (Inr v, w)"

definition js_throw :: "js_error \<Rightarrow> 'a js" where
  "js_throw e w = (Inl e, w)"

text \<open>\<^verbatim>\<open>p.then(f)\<close>, and the sequencing of an \<^verbatim>\<open>await\<close> with the statements
  after it: a rejection skips \<open>f\<close>.\<close>

definition js_then :: "'a js \<Rightarrow> ('a \<Rightarrow> 'b js) \<Rightarrow> 'b js" where
  "js_then p f w = (case p w of (Inl e, w') \<Rightarrow> (Inl e, w') | (Inr v, w') \<Rightarrow> f v w')"

definition js_seq :: "unit js \<Rightarrow> 'b js \<Rightarrow> 'b js" where
  "js_seq p q = js_then p (\<lambda>_. q)"

text \<open>\<^verbatim>\<open>p.catch(g)\<close>, and \<^verbatim>\<open>try { p } catch (error) { g }\<close>.\<close>

definition js_catch :: "'a js \<Rightarrow> (js_error \<Rightarrow> 'a js) \<Rightarrow> 'a js" where
  "js_catch p g w = (case p w of (Inl e, w') \<Rightarrow> g e w' | (Inr v, w') \<Rightarrow> (Inr v, w'))"

text \<open>\<^verbatim>\<open>console.log(...args)\<close> and \<^verbatim>\<open>console.error(...args)\<close>: the event
  keeps the arguments of the call, all of them strings in this script. How the runtime lays
  them out on the line is not part of the model.\<close>

definition console_log :: "js_string list \<Rightarrow> unit js" where
  "console_log args w = (Inr (), emit (ConsoleLog args) w)"

definition console_error :: "js_string list \<Rightarrow> unit js" where
  "console_error args w = (Inr (), emit (ConsoleError args) w)"

text \<open>\<^verbatim>\<open>fs.readFile(filename, 'utf8')\<close> of \<^verbatim>\<open>require('fs').promises\<close>: the promise
  settles with the outcome the file system gives for the name.\<close>

definition fs_readFile :: "js_string \<Rightarrow> js_string js" where
  "fs_readFile filename w = (disk w filename, emit (ReadFile filename) w)"

text \<open>
  \<^verbatim>\<open>fsCallback.readFile(filename, 'utf8', callback)\<close> of \<^verbatim>\<open>require('fs')\<close>: for a
  path it accepts, the runtime reads the file and calls the callback with the error alone,
  or with \<^verbatim>\<open>null\<close> and the text. An absent argument (\<^verbatim>\<open>null\<close> or
  \<^verbatim>\<open>undefined\<close>) is \<open>None\<close>. The value is the completion of that call: an \<open>Inl\<close>
  is an exception nothing catches. For a string it refuses, the function throws the error
  of the refusal to its caller: nothing is read and the callback is never called.
\<close>

type_synonym callback = "js_error option \<Rightarrow> js_string option \<Rightarrow> unit js"

definition fsCallback_readFile :: "js_string \<Rightarrow> callback \<Rightarrow> unit js" where
  "fsCallback_readFile filename callback w =
     (if valid_path filename then
        (case disk w filename of
           Inl err \<Rightarrow> callback (Some err) None (emit (ReadFile filename) w)
         | Inr data \<Rightarrow> callback None (Some data) (emit (ReadFile filename) w))
      else js_throw (refusal w filename) w)"

text \<open>\<^verbatim>\<open>data.substring(0, 50) + '...'\<close> where \<^verbatim>\<open>data\<close> may be \<^verbatim>\<open>null\<close>: the
  method call on \<^verbatim>\<open>null\<close> throws.\<close>

definition preview_of :: "js_string option \<Rightarrow> nat \<Rightarrow> js_string js" where
  "preview_of data n =
     (case data of
        None \<Rightarrow> js_throw (TypeError (str ''Cannot read properties of null (reading 'substring')''))
      | Some d \<Rightarrow> js_return (substring d 0 n @ str ''...''))"

subsection \<open>Sample files to read\<close>

definition files :: "js_string list" where
  "files = [str ''file1.txt'', str ''file2.txt'', str ''file3.txt'']"

subsection \<open>1. Callback-based approach\<close>

definition readFileWithCallback :: "js_string \<Rightarrow> callback \<Rightarrow> unit js" where
  "readFileWithCallback filename callback =
     js_seq (console_log [LF # str ''1. CALLBACK: Reading '' @ filename @ str ''...''])
       (fsCallback_readFile filename
          (\<lambda>err data.
             (case err of
                Some e \<Rightarrow> callback (Some e) None
              | None \<Rightarrow> callback None data)))"

definition demonstrateCallbacks :: "unit js" where
  "demonstrateCallbacks =
     js_seq (console_log [LF # str ''DEMONSTRATING CALLBACK-BASED APPROACH''])
    (js_seq (console_log [repeat (str ''-'') 50])
    (readFileWithCallback (str ''file1.txt'')
       (\<lambda>err data.
          (case err of
             Some e \<Rightarrow> console_error [str ''Callback Error:'', message e]
           | None \<Rightarrow>
               js_then (preview_of data 50) (\<lambda>p.
               js_seq (console_log [str ''Callback Success - File 1 content preview:'', p])
              (readFileWithCallback (str ''file2.txt'')
                 (\<lambda>err data2.
                    (case err of
                       Some e \<Rightarrow> console_error [str ''Callback Error:'', message e]
                     | None \<Rightarrow>
                         js_then (preview_of data2 50) (\<lambda>p2.
                         console_log
                           [str ''Callback Success - File 2 content preview:'', p2])))))))))"

subsection \<open>2. Promise-based approach\<close>

definition readFileWithPromises :: "js_string \<Rightarrow> js_string js" where
  "readFileWithPromises filename =
     js_seq (console_log [LF # str ''2. PROMISE: Reading '' @ filename @ str ''...''])
       (js_catch
          (js_then (fs_readFile filename) (\<lambda>data.
             js_seq (console_log [str ''Promise resolved for '' @ filename])
               (js_return data)))
          (\<lambda>error.
             js_seq (console_error
                       [str ''Promise rejected for '' @ filename @ str '':'', message error])
               (js_throw error)))"

text \<open>The chain is not returned by the source; its outcome is kept here, so that a
  rejection nobody handles shows as \<open>Inl\<close>.\<close>

definition demonstratePromises :: "unit js" where
  "demonstratePromises =
     js_seq (console_log [LF # str ''DEMONSTRATING PROMISE-BASED APPROACH''])
    (js_seq (console_log [repeat (str ''-'') 50])
    (js_catch
       (js_then
          (js_then
             (js_then (readFileWithPromises (str ''file1.txt'')) (\<lambda>data1.
                js_seq (console_log
                          [str ''Promise - File 1 preview:'', substring data1 0 50 @ str ''...''])
                  (readFileWithPromises (str ''file2.txt''))))
             (\<lambda>data2.
                js_seq (console_log
                          [str ''Promise - File 2 preview:'', substring data2 0 50 @ str ''...''])
                  (readFileWithPromises (str ''file3.txt''))))
          (\<lambda>data3.
             js_seq (console_log
                       [str ''Promise - File 3 preview:'', substring data3 0 50 @ str ''...''])
               (console_log [str ''All promises completed successfully!''])))
       (\<lambda>error. console_error [str ''Promise chain error:'', message error])))"

subsection \<open>3. Async/await approach\<close>

definition readFileWithAsyncAwait :: "js_string \<Rightarrow> js_string js" where
  "readFileWithAsyncAwait filename =
     js_seq (console_log [LF # str ''3. ASYNC/AWAIT: Reading '' @ filename @ str ''...''])
       (js_catch
          (js_then (fs_readFile filename) (\<lambda>data.
             js_seq (console_log [str ''Async/await completed for '' @ filename])
               (js_return data)))
          (\<lambda>error.
             js_seq (console_error
                       [str ''Async/await error for '' @ filename @ str '':'', message error])
               (js_throw error)))"

definition demonstrateAsyncAwait :: "unit js" where
  "demonstrateAsyncAwait =
     js_seq (console_log [LF # str ''DEMONSTRATING ASYNC/AWAIT APPROACH''])
    (js_seq (console_log [repeat (str ''-'') 50])
    (js_catch
       (js_then (readFileWithAsyncAwait (str ''file1.txt'')) (\<lambda>data1.
        js_seq (console_log
                  [str ''Async/Await - File 1 preview:'', substring data1 0 50 @ str ''...''])
       (js_then (readFileWithAsyncAwait (str ''file2.txt'')) (\<lambda>data2.
        js_seq (console_log
                  [str ''Async/Await - File 2 preview:'', substring data2 0 50 @ str ''...''])
       (js_then (readFileWithAsyncAwait (str ''file3.txt'')) (\<lambda>data3.
        js_seq (console_log
                  [str ''Async/Await - File 3 preview:'', substring data3 0 50 @ str ''...''])
          (console_log [str ''All async/await operations completed!''])))))))
       (\<lambda>error. console_error [str ''Async/await error:'', message error])))"

subsection \<open>4. Sequential file reading with async/await\<close>

text \<open>The two object literals pushed onto \<^verbatim>\<open>results\<close>.\<close>

definition success_record :: "js_string \<Rightarrow> js_string \<Rightarrow> js_object" where
  "success_record filename content =
     [''filename'' \<mapsto> JsString filename,
      ''content'' \<mapsto> JsString content,
      ''length'' \<mapsto> JsNumber (length content),
      ''preview'' \<mapsto> JsString (substring content 0 60 @ str ''...'')]"

definition error_record :: "js_string \<Rightarrow> js_error \<Rightarrow> js_object" where
  "error_record filename error =
     [''filename'' \<mapsto> JsString filename,
      ''error'' \<mapsto> JsString (message error)]"

text \<open>One turn of the \<^verbatim>\<open>for\<close> loop at index \<open>i < fileList.length\<close>: the value is
  the \<^verbatim>\<open>results\<close> array after the turn.\<close>

definition loop_body :: "js_string list \<Rightarrow> nat \<Rightarrow> js_object list \<Rightarrow> js_object list js" where
  "loop_body fileList i results =
     (let filename = fileList ! i in
      js_seq (console_log
                [LF # number_toString (i + 1) @ str ''/'' @ number_toString (length fileList)
                  @ str '': Reading '' @ filename @ str ''...''])
        (js_catch
           (js_then (fs_readFile filename) (\<lambda>content.
              js_seq (console_log
                        [str ''Successfully read '' @ filename @ str '' (''
                          @ number_toString (length content) @ str '' characters)''])
                (js_return (results @ [success_record filename content]))))
           (\<lambda>error.
              js_seq (console_error
                        [str ''Failed to read '' @ filename @ str '':'', message error])
                (js_return (results @ [error_record filename error])))))"

function for_loop :: "js_string list \<Rightarrow> nat \<Rightarrow> js_object list \<Rightarrow> js_object list js" where
  "for_loop fileList i results w =
     (if i < length fileList then
        (case loop_body fileList i results w of
           (Inl e, w') \<Rightarrow> (Inl e, w')
         | (Inr results', w') \<Rightarrow> for_loop fileList (i + 1) results' w')
      else (Inr results, w))"
  by pat_completeness auto
termination
  by (relation "measure (\<lambda>(fileList, i, results, w). length fileList - i)") auto

declare for_loop.simps [simp del]

definition readMultipleFilesSequentially :: "js_string list \<Rightarrow> js_object list js" where
  "readMultipleFilesSequentially fileList =
     js_seq (console_log [LF # str ''DEMONSTRATING SEQUENTIAL FILE READING''])
    (js_seq (console_log [repeat (str ''-'') 50])
    (js_seq (console_log
               [str ''Reading '' @ number_toString (length fileList)
                 @ str '' files sequentially...''])
    (for_loop fileList 0 [])))"

subsection \<open>Sample worlds\<close>

text \<open>
  Concrete file systems on which the functions are evaluated: \<open>world_of entries\<close>
  holds exactly the files listed, each with its text, and has printed nothing yet. Opening
  any other path fails with the error Node reports for a missing file; a string that is no
  path is refused with an error that stands for the runtime's. \<open>probe\<close> is a callback
  that prints one line whenever it is called.
\<close>

definition ENOENT :: "js_string \<Rightarrow> js_error" where
  "ENOENT name =
     SystemError (str ''ENOENT: no such file or directory, open '' @ [39] @ name @ [39])"

definition ERR_INVALID_ARG_VALUE :: "js_string \<Rightarrow> js_error" where
  "ERR_INVALID_ARG_VALUE name =
     TypeError
       (str ''The argument 'path' must be a string, Uint8Array, or URL without null bytes'')"

definition disk_of :: "(js_string \<times> js_string) list \<Rightarrow> js_string \<Rightarrow> js_error + js_string" where
  "disk_of entries name =
     (if valid_path name then
        (case map_of entries name of None \<Rightarrow> Inl (ENOENT name) | Some text \<Rightarrow> Inr text)
      else Inl (ERR_INVALID_ARG_VALUE name))"

definition world_of :: "(js_string \<times> js_string) list \<Rightarrow> world" where
  "world_of entries =
     \<lparr>disk = disk_of entries, refusal = ERR_INVALID_ARG_VALUE, trace = []\<rparr>"


section \<open>Properties\<close>

subsection \<open>Auxiliary facts\<close>

lemmas js_defs = js_seq_def js_then_def js_catch_def js_return_def js_throw_def
  console_log_def console_error_def fs_readFile_def fsCallback_readFile_def emit_def

lemma reads_of_append: "reads_of (xs @ ys) = reads_of xs @ reads_of ys"
  by (induction xs rule: reads_of.induct) simp_all

lemma substring_0: "substring s 0 n = take n s"
  by (cases "n \<le> length s") (simp_all add: substring_def Let_def)

lemma disk_world_of [simp]: "disk (world_of entries) = disk_of entries"
  by (simp add: world_of_def)

lemma trace_world_of [simp]: "trace (world_of entries) = []"
  by (simp add: world_of_def)

lemma refusal_world_of [simp]: "refusal (world_of entries) = ERR_INVALID_ARG_VALUE"
  by (simp add: world_of_def)

lemma valid_path_files [simp]:
  "valid_path (str ''file1.txt'')" "valid_path (str ''file2.txt'')"
  "valid_path (str ''file3.txt'')"
  by (simp_all add: valid_path_def str_def)

lemma success_record_fields:
  "success_record f c ''filename'' = Some (JsString f)"
  "success_record f c ''content'' = Some (JsString c)"
  "success_record f c ''length'' = Some (JsNumber (length c))"
  "success_record f c ''preview'' = Some (JsString (take 60 c @ str ''...''))"
  "success_record f c ''error'' = None"
  "dom (success_record f c) = {''filename'', ''content'', ''length'', ''preview''}"
  by (auto simp: success_record_def substring_0)

lemma error_record_fields:
  "error_record f e ''filename'' = Some (JsString f)"
  "error_record f e ''error'' = Some (JsString (message e))"
  "error_record f e ''content'' = None"
  "error_record f e ''length'' = None"
  "error_record f e ''preview'' = None"
  "dom (error_record f e) = {''filename'', ''error''}"
  by (auto simp: error_record_def)

lemma readFileWithPromises_eq:
  "readFileWithPromises f w =
     (case disk w f of
        Inl e \<Rightarrow> (Inl e, w\<lparr>trace := trace w @
           [ConsoleLog [LF # str ''2. PROMISE: Reading '' @ f @ str ''...''], ReadFile f,
            ConsoleError [str ''Promise rejected for '' @ f @ str '':'', message e]]\<rparr>)
      | Inr d \<Rightarrow> (Inr d, w\<lparr>trace := trace w @
           [ConsoleLog [LF # str ''2. PROMISE: Reading '' @ f @ str ''...''], ReadFile f,
            ConsoleLog [str ''Promise resolved for '' @ f]]\<rparr>))"
  by (simp add: readFileWithPromises_def js_defs split: sum.splits)

lemma readFileWithAsyncAwait_eq:
  "readFileWithAsyncAwait f w =
     (case disk w f of
        Inl e \<Rightarrow> (Inl e, w\<lparr>trace := trace w @
           [ConsoleLog [LF # str ''3. ASYNC/AWAIT: Reading '' @ f @ str ''...''], ReadFile f,
            ConsoleError [str ''Async/await error for '' @ f @ str '':'', message e]]\<rparr>)
      | Inr d \<Rightarrow> (Inr d, w\<lparr>trace := trace w @
           [ConsoleLog [LF # str ''3. ASYNC/AWAIT: Reading '' @ f @ str ''...''], ReadFile f,
            ConsoleLog [str ''Async/await completed for '' @ f]]\<rparr>))"
  by (simp add: readFileWithAsyncAwait_def js_defs split: sum.splits)

lemma readFileWithCallback_eq:
  "readFileWithCallback f cb w =
     (if valid_path f then
        (case disk w f of
           Inl e \<Rightarrow> cb (Some e) None
             (emit (ReadFile f) (emit (ConsoleLog [LF # str ''1. CALLBACK: Reading '' @ f @ str ''...'']) w))
         | Inr d \<Rightarrow> cb None (Some d)
             (emit (ReadFile f) (emit (ConsoleLog [LF # str ''1. CALLBACK: Reading '' @ f @ str ''...'']) w)))
      else (Inl (refusal w f),
            emit (ConsoleLog [LF # str ''1. CALLBACK: Reading '' @ f @ str ''...'']) w))"
  by (simp add: readFileWithCallback_def js_seq_def js_then_def js_throw_def console_log_def
      fsCallback_readFile_def emit_def split: sum.splits)

lemma demonstratePromises_fst: "fst (demonstratePromises w) = Inr ()"
  by (simp add: demonstratePromises_def readFileWithPromises_eq js_defs split: sum.splits)

lemma demonstrateAsyncAwait_fst: "fst (demonstrateAsyncAwait w) = Inr ()"
  by (simp add: demonstrateAsyncAwait_def readFileWithAsyncAwait_eq js_defs split: sum.splits)

lemma demonstrateCallbacks_fst: "fst (demonstrateCallbacks w) = Inr ()"
  by (simp add: demonstrateCallbacks_def readFileWithCallback_eq preview_of_def js_defs split: sum.splits)

lemma loop_body_fst:
  "fst (loop_body fileList i results w) =
     Inr (results @ [case_sum (error_record (fileList ! i)) (success_record (fileList ! i))
                       (disk w (fileList ! i))])"
  by (simp add: loop_body_def Let_def js_defs split: sum.splits)

lemma loop_body_disk: "disk (snd (loop_body fileList i results w)) = disk w"
  by (simp add: loop_body_def Let_def js_defs split: sum.splits)

lemma loop_body_reads:
  "reads_of (trace (snd (loop_body fileList i results w))) = reads_of (trace w) @ [fileList ! i]"
  by (simp add: loop_body_def Let_def js_defs reads_of_append split: sum.splits)

lemma for_loop_fst:
  "fst (for_loop fileList i results w) =
     Inr (results @ map (\<lambda>f. case_sum (error_record f) (success_record f) (disk w f))
                      (drop i fileList))"
proof (induction fileList i results w rule: for_loop.induct)
  case (1 fileList i results w)
  show ?case
  proof (cases "i < length fileList")
    case False
    then show ?thesis by (simp add: for_loop.simps)
  next
    case True
    obtain r w' where b: "loop_body fileList i results w = (r, w')"
      by (cases "loop_body fileList i results w")
    from loop_body_fst [of fileList i results w] b
    have r: "r = Inr (results @ [case_sum (error_record (fileList ! i))
                (success_record (fileList ! i)) (disk w (fileList ! i))])"
      by simp
    from loop_body_disk [of fileList i results w] b have d: "disk w' = disk w"
      by simp
    have "fst (for_loop fileList i results w) =
            fst (for_loop fileList (i + 1) (results @ [case_sum (error_record (fileList ! i))
                (success_record (fileList ! i)) (disk w (fileList ! i))]) w')"
      using True b r by (subst for_loop.simps) simp
    also have "\<dots> = Inr ((results @ [case_sum (error_record (fileList ! i))
                (success_record (fileList ! i)) (disk w (fileList ! i))]) @
                 map (\<lambda>f. case_sum (error_record f) (success_record f) (disk w f))
                      (drop (i + 1) fileList))"
      using "1.IH" [OF True b [symmetric] r] d by simp
    also have "\<dots> = Inr (results @ map (\<lambda>f. case_sum (error_record f) (success_record f) (disk w f))
                      (drop i fileList))"
      using True by (simp add: Cons_nth_drop_Suc [symmetric])
    finally show ?thesis .
  qed
qed

lemma for_loop_reads:
  "reads_of (trace (snd (for_loop fileList i results w))) = reads_of (trace w) @ drop i fileList"
proof (induction fileList i results w rule: for_loop.induct)
  case (1 fileList i results w)
  show ?case
  proof (cases "i < length fileList")
    case False
    then show ?thesis by (simp add: for_loop.simps)
  next
    case True
    obtain r w' where b: "loop_body fileList i results w = (r, w')"
      by (cases "loop_body fileList i results w")
    from loop_body_fst [of fileList i results w] b obtain rs where r: "r = Inr rs"
      by simp
    from loop_body_reads [of fileList i results w] b
    have t: "reads_of (trace w') = reads_of (trace w) @ [fileList ! i]"
      by simp
    have "snd (for_loop fileList i results w) = snd (for_loop fileList (i + 1) rs w')"
      using True b r by (subst for_loop.simps) simp
    then show ?thesis
      using "1.IH" [OF True b [symmetric] r] t True
      by (simp add: Cons_nth_drop_Suc)
  qed
qed

lemma rmfs_fst:
  "fst (readMultipleFilesSequentially fileList w) =
     Inr (map (\<lambda>f. case_sum (error_record f) (success_record f) (disk w f)) fileList)"
proof -
  define w0 where "w0 = snd (js_seq (console_log [LF # str ''DEMONSTRATING SEQUENTIAL FILE READING''])
    (js_seq (console_log [repeat (str ''-'') 50])
    (console_log
               [str ''Reading '' @ number_toString (length fileList)
                 @ str '' files sequentially...''])) w)"
  have "readMultipleFilesSequentially fileList w = for_loop fileList 0 [] w0"
    by (simp add: readMultipleFilesSequentially_def w0_def js_defs)
  moreover have "disk w0 = disk w"
    by (simp add: w0_def js_defs)
  ultimately show ?thesis
    using for_loop_fst [of fileList 0 "[]" w0] by simp
qed

lemma rmfs_reads:
  "reads_of (trace (snd (readMultipleFilesSequentially fileList w))) =
     reads_of (trace w) @ fileList"
proof -
  define w0 where "w0 = snd (js_seq (console_log [LF # str ''DEMONSTRATING SEQUENTIAL FILE READING''])
    (js_seq (console_log [repeat (str ''-'') 50])
    (console_log
               [str ''Reading '' @ number_toString (length fileList)
                 @ str '' files sequentially...''])) w)"
  have "readMultipleFilesSequentially fileList w = for_loop fileList 0 [] w0"
    by (simp add: readMultipleFilesSequentially_def w0_def js_defs)
  moreover have "reads_of (trace w0) = reads_of (trace w)"
    by (simp add: w0_def js_defs reads_of_append)
  ultimately show ?thesis
    using for_loop_reads [of fileList 0 "[]" w0] by simp
qed

lemma shapes_differ: "{''filename'', ''content'', ''length'', ''preview''} \<noteq> {''filename'', ''error''}"
proof
  assume eq: "{''filename'', ''content'', ''length'', ''preview''} = {''filename'', ''error''}"
  have "''error'' \<in> {''filename'', ''error''}"
    by simp
  then have "''error'' \<in> {''filename'', ''content'', ''length'', ''preview''}"
    by (simp only: eq)
  then show False
    by simp
qed

lemma record_shape:
  "(dom (case_sum (error_record f) (success_record f) outcome) =
      {''filename'', ''content'', ''length'', ''preview''}) \<noteq>
   (dom (case_sum (error_record f) (success_record f) outcome) = {''filename'', ''error''})"
proof (cases outcome)
  case (Inl e)
  then show ?thesis
    using shapes_differ by (simp add: error_record_fields(6))
next
  case (Inr c)
  then show ?thesis
    using shapes_differ by (simp add: success_record_fields(6))
qed

subsection \<open>C1: the records of a list of readable files\<close>

text \<open>
  C1, as amended. For every list of N filenames that all reference readable files,
  \<open>readMultipleFilesSequentially\<close> fulfils with exactly N success records (each with
  the fields \<^verbatim>\<open>filename\<close>, \<^verbatim>\<open>content\<close>, \<^verbatim>\<open>length\<close> and \<^verbatim>\<open>preview\<close>), in
  input order; each record's \<^verbatim>\<open>length\<close> is the number of characters (UTF-16 code
  units) of that file's content, and each record's \<^verbatim>\<open>preview\<close> is the first 60
  characters of the content (the full content if it is shorter) followed by the literal
  \<^verbatim>\<open>...\<close>.
\<close>

theorem rmfs_all_readable:
  assumes "map (disk w) fileList = map Inr contents"
  shows "\<exists>results.
     fst (readMultipleFilesSequentially fileList w) = Inr results \<and>
     length results = length fileList \<and>
     map dom results = map (\<lambda>f. {''filename'', ''content'', ''length'', ''preview''}) fileList \<and>
     map (\<lambda>r. r ''length'') results = map (\<lambda>c. Some (JsNumber (length c))) contents \<and>
     map (\<lambda>r. r ''preview'') results =
       map (\<lambda>c. Some (JsString (take 60 c @ str ''...''))) contents"
proof -
  have len: "length contents = length fileList"
    using assms by (metis length_map)
  have d: "disk w (fileList ! i) = Inr (contents ! i)" if "i < length fileList" for i
    using assms that len by (metis nth_map)
  let ?rs = "map (\<lambda>f. case_sum (error_record f) (success_record f) (disk w f)) fileList"
  have "map dom ?rs = map (\<lambda>f. {''filename'', ''content'', ''length'', ''preview''}) fileList"
    by (rule nth_equalityI) (simp_all add: d success_record_fields)
  moreover have "map (\<lambda>r. r ''length'') ?rs = map (\<lambda>c. Some (JsNumber (length c))) contents"
    by (rule nth_equalityI) (simp_all add: d len success_record_fields)
  moreover have "map (\<lambda>r. r ''preview'') ?rs =
       map (\<lambda>c. Some (JsString (take 60 c @ str ''...''))) contents"
    by (rule nth_equalityI) (simp_all add: d len success_record_fields)
  ultimately show ?thesis
    by (simp add: rmfs_fst)
qed

text \<open>The amended statement on two readable files of 11 and 10 characters.\<close>

theorem rmfs_all_readable_witness:
  "map (disk (world_of [(str ''file1.txt'', str ''hello world''), (str ''file3.txt'', str ''third file'')]))
       [str ''file1.txt'', str ''file3.txt'']
     = map Inr [str ''hello world'', str ''third file''] \<and>
   (\<exists>results.
      fst (readMultipleFilesSequentially [str ''file1.txt'', str ''file3.txt'']
             (world_of [(str ''file1.txt'', str ''hello world''), (str ''file3.txt'', str ''third file'')]))
        = Inr results \<and>
      length results = 2 \<and>
      map (\<lambda>r. r ''length'') results = [Some (JsNumber 11), Some (JsNumber 10)] \<and>
      map (\<lambda>r. r ''preview'') results =
        [Some (JsString (str ''hello world...'')), Some (JsString (str ''third file...''))])"
proof -
  have h: "map (disk (world_of [(str ''file1.txt'', str ''hello world''), (str ''file3.txt'', str ''third file'')]))
       [str ''file1.txt'', str ''file3.txt'']
     = map Inr [str ''hello world'', str ''third file'']"
    by (simp add: disk_of_def valid_path_def str_def)
  from rmfs_all_readable [OF h] show ?thesis
    using h by (clarsimp simp: str_def)
qed

text \<open>
  The preview is not the bare prefix: for a single readable file holding
  \<^verbatim>\<open>hello world\<close> the record's preview is \<^verbatim>\<open>hello world...\<close>, while the first 60
  characters of the content are the content itself.
\<close>

theorem rmfs_all_readable_counterexample:
  "map (disk (world_of [(str ''file1.txt'', str ''hello world'')])) [str ''file1.txt'']
     = map Inr [str ''hello world''] \<and>
   fst (readMultipleFilesSequentially [str ''file1.txt'']
          (world_of [(str ''file1.txt'', str ''hello world'')]))
     = Inr [success_record (str ''file1.txt'') (str ''hello world'')] \<and>
   success_record (str ''file1.txt'') (str ''hello world'') ''preview''
     = Some (JsString (str ''hello world...'')) \<and>
   substring (str ''hello world'') 0 60 = str ''hello world'' \<and>
   success_record (str ''file1.txt'') (str ''hello world'') ''preview''
     \<noteq> Some (JsString (substring (str ''hello world'') 0 60))"
  by (simp add: rmfs_fst disk_of_def valid_path_def success_record_def substring_def str_def)

subsection \<open>C2: a missing file does not stop the sequential reader\<close>

text \<open>
  C2. When the entry at index \<open>i\<close> of the input references a file whose read fails,
  \<open>readMultipleFilesSequentially\<close> still fulfils with one record per entry; the record at
  index \<open>i\<close> is the error record of that entry, with the error's message in its
  \<^verbatim>\<open>error\<close> field; every later entry is read and gets the record of its own outcome.
  In particular the input [valid, missing, valid] gives exactly three records in input
  order: success, error, success.
\<close>

theorem rmfs_continues_after_failure:
  "(i < length fileList \<and> disk w (fileList ! i) = Inl err \<longrightarrow>
      (\<exists>results.
         fst (readMultipleFilesSequentially fileList w) = Inr results \<and>
         length results = length fileList \<and>
         results ! i = error_record (fileList ! i) err \<and>
         (results ! i) ''error'' = Some (JsString (message err)) \<and>
         drop (i + 1) results =
           map (\<lambda>f. case_sum (error_record f) (success_record f) (disk w f))
             (drop (i + 1) fileList) \<and>
         reads_of (trace (snd (readMultipleFilesSequentially fileList w))) =
           reads_of (trace w) @ fileList)) \<and>
   (disk w valid1 = Inr content1 \<and> disk w missing = Inl err \<and> disk w valid2 = Inr content2 \<longrightarrow>
      fst (readMultipleFilesSequentially [valid1, missing, valid2] w) =
        Inr [success_record valid1 content1, error_record missing err,
             success_record valid2 content2] \<and>
      dom (success_record valid1 content1) = {''filename'', ''content'', ''length'', ''preview''} \<and>
      dom (error_record missing err) = {''filename'', ''error''} \<and>
      dom (success_record valid2 content2) = {''filename'', ''content'', ''length'', ''preview''})"
  by (simp add: rmfs_fst rmfs_reads success_record_fields error_record_fields drop_map)

text \<open>The script's own list \<open>files\<close> where \<^verbatim>\<open>file2.txt\<close> is missing.\<close>

theorem rmfs_continues_after_failure_witness:
  "(1::nat) < length files \<and>
   disk (world_of [(str ''file1.txt'', str ''hello world''), (str ''file3.txt'', str ''third file'')])
     (files ! 1) = Inl (ENOENT (str ''file2.txt'')) \<and>
   fst (readMultipleFilesSequentially files
          (world_of [(str ''file1.txt'', str ''hello world''), (str ''file3.txt'', str ''third file'')]))
     = Inr [success_record (str ''file1.txt'') (str ''hello world''),
            error_record (str ''file2.txt'') (ENOENT (str ''file2.txt'')),
            success_record (str ''file3.txt'') (str ''third file'')] \<and>
   reads_of (trace (snd (readMultipleFilesSequentially files
          (world_of [(str ''file1.txt'', str ''hello world''), (str ''file3.txt'', str ''third file'')]))))
     = files"
proof -
  let ?w = "world_of [(str ''file1.txt'', str ''hello world''), (str ''file3.txt'', str ''third file'')]"
  have h1: "(1::nat) < length files" "disk ?w (files ! 1) = Inl (ENOENT (str ''file2.txt''))"
    by (simp_all add: files_def disk_of_def valid_path_def str_def)
  have h2: "disk ?w (str ''file1.txt'') = Inr (str ''hello world'')"
    "disk ?w (str ''file2.txt'') = Inl (ENOENT (str ''file2.txt''))"
    "disk ?w (str ''file3.txt'') = Inr (str ''third file'')"
    by (simp_all add: disk_of_def valid_path_def str_def)
  have f: "files = [str ''file1.txt'', str ''file2.txt'', str ''file3.txt'']"
    by (simp add: files_def)
  from rmfs_continues_after_failure [of 1 files ?w "ENOENT (str ''file2.txt'')"
      "str ''file1.txt''" "str ''hello world''" "str ''file2.txt''" "str ''file3.txt''" "str ''third file''"]
  show ?thesis
    using h1 h2 unfolding f by clarsimp
qed

subsection \<open>C3: the three readers yield the same content\<close>

text \<open>
  C3. For a filename that references a readable file, the callback-style reader passes
  the content as the second argument of its callback (with \<^verbatim>\<open>null\<close> as the first),
  the promise-style reader fulfils with the content and the async/await-style reader
  returns the content: the same string in all three, whatever has been printed before.
  A filename that references a file is a path the runtime accepts; the statement also says
  what the callback-style reader does with any other string, for which the runtime's
  refusal leaves it as an exception after the progress line.
\<close>

theorem readers_yield_identical_content:
  assumes "disk wc filename = Inr content"
    and "disk wp filename = Inr content"
    and "disk wa filename = Inr content"
  shows "readFileWithCallback filename callback wc =
           (if valid_path filename then
              callback None (Some content)
                (emit (ReadFile filename)
                   (emit (ConsoleLog [LF # str ''1. CALLBACK: Reading '' @ filename @ str ''...'']) wc))
            else
              (Inl (refusal wc filename),
               emit (ConsoleLog [LF # str ''1. CALLBACK: Reading '' @ filename @ str ''...'']) wc)) \<and>
         fst (readFileWithPromises filename wp) = Inr content \<and>
         fst (readFileWithAsyncAwait filename wa) = Inr content"
  using assms by (simp add: readFileWithCallback_eq readFileWithPromises_eq readFileWithAsyncAwait_eq)

text \<open>On a file holding \<^verbatim>\<open>hello world\<close>, with a callback that prints its second
  argument.\<close>

theorem readers_yield_identical_content_witness:
  "disk (world_of [(str ''file1.txt'', str ''hello world'')]) (str ''file1.txt'') = Inr (str ''hello world'') \<and>
   last (trace (snd (readFileWithCallback (str ''file1.txt'')
           (\<lambda>err data. console_log [case data of None \<Rightarrow> str ''null'' | Some d \<Rightarrow> d])
           (world_of [(str ''file1.txt'', str ''hello world'')]))))
     = ConsoleLog [str ''hello world''] \<and>
   fst (readFileWithPromises (str ''file1.txt'') (world_of [(str ''file1.txt'', str ''hello world'')]))
     = Inr (str ''hello world'') \<and>
   fst (readFileWithAsyncAwait (str ''file1.txt'') (world_of [(str ''file1.txt'', str ''hello world'')]))
     = Inr (str ''hello world'')"
proof -
  let ?w = "world_of [(str ''file1.txt'', str ''hello world'')]"
  have h: "disk ?w (str ''file1.txt'') = Inr (str ''hello world'')"
    by (simp add: disk_of_def valid_path_def str_def)
  from readers_yield_identical_content [OF h h h] show ?thesis
    using h by (simp add: console_log_def emit_def)
qed

subsection \<open>C4: each reader surfaces a failed read through its own channel\<close>



subsection \<open>C5: the preview always ends in an ellipsis\<close>

text \<open>
  C5. The preview of every success record of \<open>readMultipleFilesSequentially\<close> is
  \<^verbatim>\<open>content.substring(0, 60)\<close> with the literal \<^verbatim>\<open>...\<close> appended, whether or not
  the content was truncated, and its length field is the length of the content. For a file
  whose content is \<^verbatim>\<open>hello world\<close> the record has length 11 and preview
  \<^verbatim>\<open>hello world...\<close>.
\<close>

theorem rmfs_preview_always_has_ellipsis:
  assumes "i < length fileList"
    and "disk w (fileList ! i) = Inr content"
  shows "\<exists>results.
     fst (readMultipleFilesSequentially fileList w) = Inr results \<and>
     (results ! i) ''preview'' = Some (JsString (substring content 0 60 @ str ''...'')) \<and>
     (results ! i) ''length'' = Some (JsNumber (length content)) \<and>
     (content = str ''hello world'' \<longrightarrow>
        (results ! i) ''length'' = Some (JsNumber 11) \<and>
        (results ! i) ''preview'' = Some (JsString (str ''hello world...'')))"
proof -
  have "substring (str ''hello world'') 0 60 @ str ''...'' = str ''hello world...''"
    by (simp add: substring_def str_def)
  moreover have "length (str ''hello world'') = 11"
    by (simp add: str_def)
  ultimately show ?thesis
    using assms by (simp add: rmfs_fst success_record_def)
qed

text \<open>The example of a single file holding \<^verbatim>\<open>hello world\<close>.\<close>

theorem rmfs_preview_always_has_ellipsis_witness:
  "(0::nat) < length [str ''file1.txt''] \<and>
   disk (world_of [(str ''file1.txt'', str ''hello world'')]) ([str ''file1.txt''] ! 0)
     = Inr (str ''hello world'') \<and>
   (\<exists>results.
      fst (readMultipleFilesSequentially [str ''file1.txt'']
             (world_of [(str ''file1.txt'', str ''hello world'')])) = Inr results \<and>
      (results ! 0) ''length'' = Some (JsNumber 11) \<and>
      (results ! 0) ''preview'' = Some (JsString (str ''hello world...'')))"
proof -
  have h: "(0::nat) < length [str ''file1.txt'']"
    "disk (world_of [(str ''file1.txt'', str ''hello world'')]) ([str ''file1.txt''] ! 0)
       = Inr (str ''hello world'')"
    by (simp_all add: disk_of_def valid_path_def str_def)
  from rmfs_preview_always_has_ellipsis [OF h] show ?thesis
    using h by clarsimp
qed

subsection \<open>C6: one record per entry, in input order\<close>

text \<open>
  C6. For every input list of filenames, readable or not,
  \<open>readMultipleFilesSequentially\<close> fulfils with a list as long as the input whose i-th
  record has the i-th input filename in its \<^verbatim>\<open>filename\<close> field; by the time it
  returns, the files read since the call are exactly the entries of the input, each once
  and in input order, so no failure ends the loop early.
\<close>

theorem rmfs_one_record_per_entry:
  "\<exists>results.
     fst (readMultipleFilesSequentially fileList w) = Inr results \<and>
     length results = length fileList \<and>
     map (\<lambda>r. r ''filename'') results = map (\<lambda>f. Some (JsString f)) fileList \<and>
     reads_of (trace (snd (readMultipleFilesSequentially fileList w))) =
       reads_of (trace w) @ fileList"
  by (simp add: rmfs_fst rmfs_reads success_record_def error_record_def split: sum.splits)

subsection \<open>C7: a failed read abandons the rest of a demonstrator's chain\<close>

text \<open>
  C7. In the promise demonstrator, when the read of a file of the chain fails, no later
  file of the chain is read, the last thing printed is the line of the chain's final
  \<^verbatim>\<open>catch\<close> handler with the error's message, and the chain fulfils, so the error does
  not leave the demonstrator. In the callback demonstrator, when the read of
  \<^verbatim>\<open>file1.txt\<close> fails, \<^verbatim>\<open>file2.txt\<close> is never read and the error is printed; a
  failure of \<^verbatim>\<open>file2.txt\<close> is printed likewise.
\<close>

theorem demonstrators_abandon_chain_on_failure:
  "(disk w (str ''file1.txt'') = Inl err \<longrightarrow>
      fst (demonstratePromises w) = Inr () \<and>
      reads_of (trace (snd (demonstratePromises w))) = reads_of (trace w) @ [str ''file1.txt''] \<and>
      last (trace (snd (demonstratePromises w))) =
        ConsoleError [str ''Promise chain error:'', message err]) \<and>
   (disk w (str ''file1.txt'') = Inr data1 \<and> disk w (str ''file2.txt'') = Inl err \<longrightarrow>
      fst (demonstratePromises w) = Inr () \<and>
      reads_of (trace (snd (demonstratePromises w))) =
        reads_of (trace w) @ [str ''file1.txt'', str ''file2.txt''] \<and>
      last (trace (snd (demonstratePromises w))) =
        ConsoleError [str ''Promise chain error:'', message err]) \<and>
   (disk w (str ''file1.txt'') = Inr data1 \<and> disk w (str ''file2.txt'') = Inr data2 \<and>
    disk w (str ''file3.txt'') = Inl err \<longrightarrow>
      fst (demonstratePromises w) = Inr () \<and>
      reads_of (trace (snd (demonstratePromises w))) =
        reads_of (trace w) @ [str ''file1.txt'', str ''file2.txt'', str ''file3.txt''] \<and>
      last (trace (snd (demonstratePromises w))) =
        ConsoleError [str ''Promise chain error:'', message err]) \<and>
   (disk w (str ''file1.txt'') = Inl err \<longrightarrow>
      fst (demonstrateCallbacks w) = Inr () \<and>
      reads_of (trace (snd (demonstrateCallbacks w))) = reads_of (trace w) @ [str ''file1.txt''] \<and>
      last (trace (snd (demonstrateCallbacks w))) =
        ConsoleError [str ''Callback Error:'', message err]) \<and>
   (disk w (str ''file1.txt'') = Inr data1 \<and> disk w (str ''file2.txt'') = Inl err \<longrightarrow>
      fst (demonstrateCallbacks w) = Inr () \<and>
      reads_of (trace (snd (demonstrateCallbacks w))) =
        reads_of (trace w) @ [str ''file1.txt'', str ''file2.txt''] \<and>
      last (trace (snd (demonstrateCallbacks w))) =
        ConsoleError [str ''Callback Error:'', message err])"
proof (intro conjI impI)
  assume "disk w (str ''file1.txt'') = Inl err"
  then show "reads_of (trace (snd (demonstratePromises w))) = reads_of (trace w) @ [str ''file1.txt'']"
    by (simp add: demonstratePromises_def readFileWithPromises_eq js_defs reads_of_append)
next
  assume "disk w (str ''file1.txt'') = Inl err"
  then show "last (trace (snd (demonstratePromises w))) =
        ConsoleError [str ''Promise chain error:'', message err]"
    by (simp add: demonstratePromises_def readFileWithPromises_eq js_defs)
next
  assume "disk w (str ''file1.txt'') = Inr data1 \<and> disk w (str ''file2.txt'') = Inl err"
  then show "reads_of (trace (snd (demonstratePromises w))) =
        reads_of (trace w) @ [str ''file1.txt'', str ''file2.txt'']"
    by (simp add: demonstratePromises_def readFileWithPromises_eq js_defs reads_of_append)
next
  assume "disk w (str ''file1.txt'') = Inr data1 \<and> disk w (str ''file2.txt'') = Inl err"
  then show "last (trace (snd (demonstratePromises w))) =
        ConsoleError [str ''Promise chain error:'', message err]"
    by (simp add: demonstratePromises_def readFileWithPromises_eq js_defs)
next
  assume "disk w (str ''file1.txt'') = Inr data1 \<and> disk w (str ''file2.txt'') = Inr data2 \<and>
    disk w (str ''file3.txt'') = Inl err"
  then show "reads_of (trace (snd (demonstratePromises w))) =
        reads_of (trace w) @ [str ''file1.txt'', str ''file2.txt'', str ''file3.txt'']"
    by (simp add: demonstratePromises_def readFileWithPromises_eq js_defs reads_of_append)
next
  assume "disk w (str ''file1.txt'') = Inr data1 \<and> disk w (str ''file2.txt'') = Inr data2 \<and>
    disk w (str ''file3.txt'') = Inl err"
  then show "last (trace (snd (demonstratePromises w))) =
        ConsoleError [str ''Promise chain error:'', message err]"
    by (simp add: demonstratePromises_def readFileWithPromises_eq js_defs)
next
  assume "disk w (str ''file1.txt'') = Inl err"
  then show "reads_of (trace (snd (demonstrateCallbacks w))) = reads_of (trace w) @ [str ''file1.txt'']"
    by (simp add: demonstrateCallbacks_def readFileWithCallback_eq js_defs reads_of_append)
next
  assume "disk w (str ''file1.txt'') = Inl err"
  then show "last (trace (snd (demonstrateCallbacks w))) =
        ConsoleError [str ''Callback Error:'', message err]"
    by (simp add: demonstrateCallbacks_def readFileWithCallback_eq js_defs)
next
  assume "disk w (str ''file1.txt'') = Inr data1 \<and> disk w (str ''file2.txt'') = Inl err"
  then show "reads_of (trace (snd (demonstrateCallbacks w))) =
        reads_of (trace w) @ [str ''file1.txt'', str ''file2.txt'']"
    by (simp add: demonstrateCallbacks_def readFileWithCallback_eq preview_of_def js_defs reads_of_append)
next
  assume "disk w (str ''file1.txt'') = Inr data1 \<and> disk w (str ''file2.txt'') = Inl err"
  then show "last (trace (snd (demonstrateCallbacks w))) =
        ConsoleError [str ''Callback Error:'', message err]"
    by (simp add: demonstrateCallbacks_def readFileWithCallback_eq preview_of_def js_defs)
qed (simp_all add: demonstratePromises_fst demonstrateCallbacks_fst)

text \<open>The chain with the first, the second and the third file missing.\<close>

theorem demonstrators_abandon_chain_on_failure_witness:
  "disk (world_of []) (str ''file1.txt'') = Inl (ENOENT (str ''file1.txt'')) \<and>
   fst (demonstratePromises (world_of [])) = Inr () \<and>
   reads_of (trace (snd (demonstratePromises (world_of [])))) = [str ''file1.txt''] \<and>
   fst (demonstrateCallbacks (world_of [])) = Inr () \<and>
   reads_of (trace (snd (demonstrateCallbacks (world_of [])))) = [str ''file1.txt''] \<and>
   disk (world_of [(str ''file1.txt'', str ''hello world'')]) (str ''file1.txt'') = Inr (str ''hello world'') \<and>
   disk (world_of [(str ''file1.txt'', str ''hello world'')]) (str ''file2.txt'') = Inl (ENOENT (str ''file2.txt'')) \<and>
   reads_of (trace (snd (demonstratePromises (world_of [(str ''file1.txt'', str ''hello world'')])))) = [str ''file1.txt'', str ''file2.txt''] \<and>
   reads_of (trace (snd (demonstrateCallbacks (world_of [(str ''file1.txt'', str ''hello world'')])))) = [str ''file1.txt'', str ''file2.txt''] \<and>
   disk (world_of [(str ''file1.txt'', str ''hello world''), (str ''file2.txt'', str ''second file'')]) (str ''file3.txt'') = Inl (ENOENT (str ''file3.txt'')) \<and>
   fst (demonstratePromises (world_of [(str ''file1.txt'', str ''hello world''), (str ''file2.txt'', str ''second file'')])) = Inr () \<and>
   reads_of (trace (snd (demonstratePromises (world_of [(str ''file1.txt'', str ''hello world''), (str ''file2.txt'', str ''second file'')])))) =
     [str ''file1.txt'', str ''file2.txt'', str ''file3.txt''] \<and>
   last (trace (snd (demonstratePromises (world_of [(str ''file1.txt'', str ''hello world''), (str ''file2.txt'', str ''second file'')])))) =
     ConsoleError [str ''Promise chain error:'', message (ENOENT (str ''file3.txt''))]"
proof -
  have h1: "disk (world_of []) (str ''file1.txt'') = Inl (ENOENT (str ''file1.txt''))"
    by (simp add: disk_of_def valid_path_def str_def)
  have h2: "disk (world_of [(str ''file1.txt'', str ''hello world'')]) (str ''file1.txt'') = Inr (str ''hello world'')"
    "disk (world_of [(str ''file1.txt'', str ''hello world'')]) (str ''file2.txt'') = Inl (ENOENT (str ''file2.txt''))"
    by (simp_all add: disk_of_def valid_path_def str_def)
  have h3: "disk (world_of [(str ''file1.txt'', str ''hello world''), (str ''file2.txt'', str ''second file'')]) (str ''file1.txt'') = Inr (str ''hello world'')"
    "disk (world_of [(str ''file1.txt'', str ''hello world''), (str ''file2.txt'', str ''second file'')]) (str ''file2.txt'') = Inr (str ''second file'')"
    "disk (world_of [(str ''file1.txt'', str ''hello world''), (str ''file2.txt'', str ''second file'')]) (str ''file3.txt'') = Inl (ENOENT (str ''file3.txt''))"
    by (simp_all add: disk_of_def valid_path_def str_def)
  from demonstrators_abandon_chain_on_failure
         [where w = "world_of []" and err = "ENOENT (str ''file1.txt'')"]
       demonstrators_abandon_chain_on_failure
         [where w = "(world_of [(str ''file1.txt'', str ''hello world'')])" and err = "ENOENT (str ''file2.txt'')"
            and ?data1.0 = "str ''hello world''"]
       demonstrators_abandon_chain_on_failure
         [where w = "(world_of [(str ''file1.txt'', str ''hello world''), (str ''file2.txt'', str ''second file'')])" and err = "ENOENT (str ''file3.txt'')"
            and ?data1.0 = "str ''hello world''" and ?data2.0 = "str ''second file''"]
  show ?thesis
    using h1 h2 h3 by simp
qed

subsection \<open>C8: the callback is called exactly once\<close>




subsection \<open>C9: the two shapes of a result record\<close>

text \<open>
  C9. Every record of the list \<open>readMultipleFilesSequentially\<close> fulfils with has exactly
  one of two shapes: its fields are \<^verbatim>\<open>filename\<close>, \<^verbatim>\<open>content\<close>, \<^verbatim>\<open>length\<close> and
  \<^verbatim>\<open>preview\<close> and nothing else, or they are \<^verbatim>\<open>filename\<close> and \<^verbatim>\<open>error\<close> and
  nothing else.
\<close>

theorem rmfs_record_shapes:
  "\<exists>results.
     fst (readMultipleFilesSequentially fileList w) = Inr results \<and>
     (\<forall>r \<in> set results.
        (dom r = {''filename'', ''content'', ''length'', ''preview''}) \<noteq>
        (dom r = {''filename'', ''error''}))"
proof (intro exI conjI ballI)
  show "fst (readMultipleFilesSequentially fileList w) =
          Inr (map (\<lambda>f. case_sum (error_record f) (success_record f) (disk w f)) fileList)"
    by (rule rmfs_fst)
next
  fix r
  assume "r \<in> set (map (\<lambda>f. case_sum (error_record f) (success_record f) (disk w f)) fileList)"
  then obtain f where "r = case_sum (error_record f) (success_record f) (disk w f)"
    by (auto simp only: set_map)
  then show "(dom r = {''filename'', ''content'', ''length'', ''preview''}) \<noteq>
        (dom r = {''filename'', ''error''})"
    using record_shape [of f "disk w f"] by simp
qed

text \<open>The three records for the script's list \<open>files\<close> where \<^verbatim>\<open>file2.txt\<close> is
  missing.\<close>

theorem rmfs_record_shapes_witness:
  "\<exists>results.
     fst (readMultipleFilesSequentially files (world_of [(str ''file1.txt'', str ''hello world''), (str ''file3.txt'', str ''third file'')])) = Inr results \<and>
     length results = 3 \<and>
     ((dom (results ! 0) = {''filename'', ''content'', ''length'', ''preview''}) \<noteq>
      (dom (results ! 0) = {''filename'', ''error''})) \<and>
     ((dom (results ! 1) = {''filename'', ''content'', ''length'', ''preview''}) \<noteq>
      (dom (results ! 1) = {''filename'', ''error''})) \<and>
     ((dom (results ! 2) = {''filename'', ''content'', ''length'', ''preview''}) \<noteq>
      (dom (results ! 2) = {''filename'', ''error''}))"
proof -
  from rmfs_record_shapes [of files "(world_of [(str ''file1.txt'', str ''hello world''), (str ''file3.txt'', str ''third file'')])"] obtain results where
    r: "fst (readMultipleFilesSequentially files (world_of [(str ''file1.txt'', str ''hello world''), (str ''file3.txt'', str ''third file'')])) = Inr results"
    and s: "\<forall>r \<in> set results.
        (dom r = {''filename'', ''content'', ''length'', ''preview''}) \<noteq>
        (dom r = {''filename'', ''error''})"
    by (elim exE conjE)
  have l: "length results = 3"
    using r by (auto simp: rmfs_fst files_def)
  then have m: "results ! 0 \<in> set results" "results ! 1 \<in> set results"
    "results ! 2 \<in> set results"
    by simp_all
  show ?thesis
    using r l bspec [OF s m(1)] bspec [OF s m(2)] bspec [OF s m(3)]
    by (intro exI [of _ results] conjI) assumption+
qed

subsection \<open>C10: the async/await demonstrator always fulfils\<close>

text \<open>
  C10. The promise of \<open>demonstrateAsyncAwait\<close> fulfils in every world, also when one or
  more of the three reads fail: the first error raised by \<open>readFileWithAsyncAwait\<close> is
  caught by the demonstrator's \<^verbatim>\<open>catch\<close> block, whose line with the error's message is
  the last thing printed, and is not raised again. When all three reads succeed the last
  line is the completion message.
\<close>

theorem demonstrateAsyncAwait_always_fulfills:
  "fst (demonstrateAsyncAwait w) = Inr () \<and>
   last (trace (snd (demonstrateAsyncAwait w))) =
     (case disk w (str ''file1.txt'') of
        Inl error \<Rightarrow> ConsoleError [str ''Async/await error:'', message error]
      | Inr data1 \<Rightarrow>
          (case disk w (str ''file2.txt'') of
             Inl error \<Rightarrow> ConsoleError [str ''Async/await error:'', message error]
           | Inr data2 \<Rightarrow>
               (case disk w (str ''file3.txt'') of
                  Inl error \<Rightarrow> ConsoleError [str ''Async/await error:'', message error]
                | Inr data3 \<Rightarrow> ConsoleLog [str ''All async/await operations completed!''])))"
proof
  show "fst (demonstrateAsyncAwait w) = Inr ()"
    by (rule demonstrateAsyncAwait_fst)
  show "last (trace (snd (demonstrateAsyncAwait w))) =
     (case disk w (str ''file1.txt'') of
        Inl error \<Rightarrow> ConsoleError [str ''Async/await error:'', message error]
      | Inr data1 \<Rightarrow>
          (case disk w (str ''file2.txt'') of
             Inl error \<Rightarrow> ConsoleError [str ''Async/await error:'', message error]
           | Inr data2 \<Rightarrow>
               (case disk w (str ''file3.txt'') of
                  Inl error \<Rightarrow> ConsoleError [str ''Async/await error:'', message error]
                | Inr data3 \<Rightarrow> ConsoleLog [str ''All async/await operations completed!''])))"
    by (simp add: demonstrateAsyncAwait_def readFileWithAsyncAwait_eq js_defs split: sum.splits)
qed

end
